theory Spec2Isabelle
  imports Main "HOL-Library.AList"
begin

section \<open>Hosted fields, internal frame: \<^verbatim>\<open>src/hosted-fields/internal/index.js\<close>\<close>

text \<open>
  The file wires one hosted field to the message bus. Its logic is in five functions:
  \<^verbatim>\<open>autofillHandler\<close> (with \<^verbatim>\<open>resetPlaceholder\<close>), \<^verbatim>\<open>mergeCardData\<close>,
  \<^verbatim>\<open>getSupportedCardBrands\<close>, \<^verbatim>\<open>formatTokenizationError\<close> and
  \<^verbatim>\<open>createTokenizationHandler\<close>. Each is embedded below in the order of its statements.

  Conventions of the embedding:
  \<^item> a JavaScript object used as a dictionary is an association list in the order
    \<^verbatim>\<open>Object.keys\<close> enumerates it; \<^verbatim>\<open>obj[k] = v\<close> is \<open>AList.update\<close>,
    \<^verbatim>\<open>delete obj[k]\<close> is \<open>AList.delete\<close>, a read is \<open>map_of\<close>;
  \<^item> a property that may be absent is an \<open>option\<close>, \<open>None\<close> standing for
    \<^verbatim>\<open>undefined\<close>;
  \<^item> a call on a collaborator whose code is in another module (the field component, the
    bus reply, the remote client, analytics) is an event of a trace, in program order;
  \<^item> a \<^verbatim>\<open>throw\<close> is the \<open>Inl\<close> of a sum.
\<close>

subsection \<open>Strings and truthiness\<close>

text \<open>A string used as a condition is true unless it is absent or empty.\<close>

definition truthy :: "string option \<Rightarrow> bool" where
  "truthy s = (case s of None \<Rightarrow> False | Some v \<Rightarrow> v \<noteq> [])"

text \<open>The character of a decimal digit \<open>d < 10\<close>.\<close>

definition digit_char :: "nat \<Rightarrow> char" where
  "digit_char d = ''0123456789'' ! d"

text \<open>\<^verbatim>\<open>String(n)\<close> for a non-negative integer: its decimal digits.\<close>

fun js_String :: "nat \<Rightarrow> string" where
  "js_String n = (if n < 10 then [digit_char n] else js_String (n div 10) @ [digit_char (n mod 10)])"

declare js_String.simps [simp del]

subsection \<open>Autofill: \<^verbatim>\<open>autofillHandler\<close>, lines 176-216, and \<^verbatim>\<open>resetPlaceholder\<close>, lines 218-227\<close>

text \<open>
  The payload of the \<^verbatim>\<open>AUTOFILL_DATA_AVAILABLE\<close> event. The three properties are the
  values of the hidden inputs, each a string when present.
\<close>

record autofill_payload =
  month :: "string option"
  year :: "string option"
  cvv :: "string option"

text \<open>
  What the handler reads of the field component: the \<^verbatim>\<open>shouldMask\<close> flag of its input and
  the \<^verbatim>\<open>placeholder\<close> attribute of the input's element (\<open>None\<close> when
  \<^verbatim>\<open>getAttribute\<close> returns \<^verbatim>\<open>null\<close>).
\<close>

record field_component =
  shouldMask :: bool
  placeholder :: "string option"

text \<open>What the handler does to the field component, one constructor per kind of call.\<close>

datatype field_effect =
    UpdateModel string string
  | MaskValue string
  | SetElementValue string
  | SetAttribute string string

definition resetPlaceholder :: "field_component \<Rightarrow> field_effect list" where
  "resetPlaceholder element =
     (let p = placeholder element in
      if truthy p
      then [SetAttribute ''placeholder'' '''', SetAttribute ''placeholder'' (case p of Some v \<Rightarrow> v | None \<Rightarrow> '''')]
      else [])"

text \<open>
  Lines 189-192: a year of two characters gets the first two characters of the current
  full year in front. \<open>fullYear\<close> is what \<^verbatim>\<open>(new Date()).getFullYear()\<close> returns.
\<close>

definition widenYear :: "nat \<Rightarrow> string \<Rightarrow> string" where
  "widenYear fullYear y =
     (if length y = 2 then take 2 (js_String fullYear) @ y else y)"

text \<open>
  Lines 194-202: the value for this frame. \<open>name\<close> is what
  \<^verbatim>\<open>frameName.getFrameName()\<close> returns.
\<close>

definition autofillValue :: "string \<Rightarrow> string \<Rightarrow> string \<Rightarrow> string option \<Rightarrow> string option" where
  "autofillValue name m y c =
     (if name = ''expirationDate'' then Some (m @ '' / '' @ y)
      else if name = ''expirationMonth'' then Some m
      else if name = ''expirationYear'' then Some y
      else if name = ''cvv'' \<and> truthy c then c
      else None)"

text \<open>
  The handler returned by \<^verbatim>\<open>autofillHandler(fieldComponent)\<close>, applied to a payload
  (\<open>None\<close>: the event came without one). The result is the list of calls made on the
  field component; the empty list is the early \<^verbatim>\<open>return\<close> and the skipped
  \<^verbatim>\<open>if (value)\<close>.
\<close>

definition autofillHandler ::
  "nat \<Rightarrow> string \<Rightarrow> field_component \<Rightarrow> autofill_payload option \<Rightarrow> field_effect list" where
  "autofillHandler fullYear name fieldComponent payload =
     (case payload of
        None \<Rightarrow> []
      | Some p \<Rightarrow>
          (case (month p, year p) of
             (Some m, Some y0) \<Rightarrow>
               if m = [] \<or> y0 = [] then []
               else
                 (let y = widenYear fullYear y0;
                      v = autofillValue name m y (cvv p)
                  in case v of
                       None \<Rightarrow> []
                     | Some val \<Rightarrow>
                         if val = [] then []
                         else [UpdateModel ''value'' val]
                              @ (if shouldMask fieldComponent then [MaskValue val]
                                 else [SetElementValue val])
                              @ resetPlaceholder fieldComponent)
           | _ \<Rightarrow> []))"

subsection \<open>Objects as dictionaries\<close>

type_synonym 'v js_object = "(string \<times> 'v) list"

definition hasOwnProperty :: "'v js_object \<Rightarrow> string \<Rightarrow> bool" where
  "hasOwnProperty obj k = (k \<in> set (map fst obj))"

text \<open>
  Modelled from the spec: \<^verbatim>\<open>lib/assign\<close> is not among the sources. Section 4.5, step 4,
  has it merge dictionaries; here it is \<^verbatim>\<open>Object.assign\<close>: the properties of each
  source are written to the target, source after source, and a source that is
  \<^verbatim>\<open>undefined\<close> is skipped.
\<close>

definition assign :: "'v js_object \<Rightarrow> 'v js_object option list \<Rightarrow> 'v js_object" where
  "assign target sources =
     fold (\<lambda>source obj.
             case source of
               None \<Rightarrow> obj
             | Some props \<Rightarrow> fold (\<lambda>(k, v). AList.update k v) props obj)
          sources target"

subsection \<open>The tokenization request\<close>

record auth_insight =
  merchantAccountId :: "string option"

text \<open>The \<^verbatim>\<open>options\<close> of a \<^verbatim>\<open>TOKENIZATION_REQUEST\<close> event.\<close>

record tokenize_options =
  fieldsToTokenize :: "string list option"
  billingAddress :: "string js_object option"
  cardholderName :: "string option"
  vault :: "bool option"
  authenticationInsight :: "auth_insight option"

subsection \<open>\<^verbatim>\<open>mergeCardData\<close>, lines 427-445, and its allow-list, lines 26-39\<close>

definition ALLOWED_BILLING_ADDRESS_FIELDS :: "string list" where
  "ALLOWED_BILLING_ADDRESS_FIELDS =
     [''company'',
      ''countryCodeNumeric'',
      ''countryCodeAlpha2'',
      ''countryCodeAlpha3'',
      ''countryName'',
      ''extendedAddress'',
      ''locality'',
      ''region'',
      ''firstName'',
      ''lastName'',
      ''postalCode'',
      ''streetAddress'']"

text \<open>
  Lines 432-436: the loop over \<^verbatim>\<open>Object.keys(userProvidedCardData)\<close>, the keys taken
  once before the loop starts.
\<close>

definition dropDisallowed :: "string js_object \<Rightarrow> string js_object \<Rightarrow> string js_object" where
  "dropDisallowed cardData userProvidedCardData =
     fold (\<lambda>field obj.
             if field \<notin> set ALLOWED_BILLING_ADDRESS_FIELDS \<or> hasOwnProperty cardData field
             then AList.delete field obj
             else obj)
          (map fst userProvidedCardData) userProvidedCardData"

definition mergeCardData :: "string js_object \<Rightarrow> tokenize_options \<Rightarrow> string js_object" where
  "mergeCardData cardData options =
     (let userProvidedCardData = assign [] [billingAddress options];
          userProvidedCardData' = dropDisallowed cardData userProvidedCardData;
          userProvidedCardData'' =
            (case cardholderName options of
               None \<Rightarrow> userProvidedCardData'
             | Some n \<Rightarrow>
                 if n = [] then userProvidedCardData'
                 else AList.update ''cardholderName'' n userProvidedCardData')
      in assign [] [Some cardData, Some userProvidedCardData''])"

subsection \<open>\<^verbatim>\<open>getSupportedCardBrands\<close>, lines 405-425\<close>

text \<open>
  \<open>normalizeCardType\<close> is the function of \<^verbatim>\<open>./normalize-card-type\<close>, which is not among
  the sources: a parameter. \<open>creditCards\<close> is
  \<^verbatim>\<open>client.getConfiguration().gatewayConfiguration.creditCards\<close>, given by its
  \<^verbatim>\<open>supportedCardTypes\<close>, and \<open>None\<close> when the configuration has no such entry.
  The merchant's brands are the entries of \<^verbatim>\<open>merchantConfiguredCardBrands\<close> in the
  order of \<^verbatim>\<open>Object.keys\<close>.
\<close>

definition getSupportedCardBrands ::
  "(string \<Rightarrow> string) \<Rightarrow> string list option \<Rightarrow> bool js_object option \<Rightarrow> bool js_object" where
  "getSupportedCardBrands normalizeCardType creditCards merchantConfiguredCardBrands =
     (let gwSupportedCards =
            (case creditCards of
               None \<Rightarrow> []
             | Some supportedCardTypes \<Rightarrow> map normalizeCardType supportedCardTypes);
          merchantConfigured =
            (case merchantConfiguredCardBrands of None \<Rightarrow> [] | Some m \<Rightarrow> m);
          supportedCardBrands =
            fold (\<lambda>cardBrand brands. AList.update cardBrand True brands) gwSupportedCards []
      in fold (\<lambda>(brand, flag) brands. AList.update (normalizeCardType brand) flag brands)
           merchantConfigured supportedCardBrands)"

subsection \<open>Values, errors and the modules the file requires\<close>

text \<open>
  Data that the file only passes on (the card details sent to the gateway, the record the
  gateway returns) is a JavaScript value. Numbers are integers: none is computed with.
  The list of an object holds no key twice.
\<close>

datatype jsval =
    JUndefined
  | JNull
  | JBool bool
  | JNum int
  | JStr string
  | JArr "jsval list"
  | JObj "(string \<times> jsval) list"

fun js_truthy :: "jsval \<Rightarrow> bool" where
  "js_truthy JUndefined = False"
| "js_truthy JNull = False"
| "js_truthy (JBool b) = b"
| "js_truthy (JNum n) = (n \<noteq> 0)"
| "js_truthy (JStr s) = (s \<noteq> [])"
| "js_truthy (JArr xs) = True"
| "js_truthy (JObj props) = True"

text \<open>
  An entry of \<^verbatim>\<open>shared/errors\<close>: the \<^verbatim>\<open>type\<close>, \<^verbatim>\<open>code\<close> and \<^verbatim>\<open>message\<close> of
  an error.
\<close>

record error_entry =
  type :: string
  code :: string
  message :: string

text \<open>
  The \<^verbatim>\<open>details\<close> of an error object, with the three properties the file reads or
  writes.
\<close>

datatype 'e details =
  Details (httpStatus: "int option") (originalError: "'e option")
    (invalidFieldKeys: "string list option")

text \<open>An element of a \<^verbatim>\<open>fieldErrors\<close> array of the gateway's answer.\<close>

datatype field_error =
  FieldError (fe_code: "string option") (fe_fieldErrors: "field_error list option")

datatype error_class = BraintreeErrorClass | TypeErrorClass | ObjectClass

text \<open>
  An object that is thrown, or that a promise is rejected with: what \<^verbatim>\<open>instanceof\<close> tells
  of it, its \<^verbatim>\<open>type\<close>, \<^verbatim>\<open>code\<close> and \<^verbatim>\<open>message\<close> when it has them, its
  \<^verbatim>\<open>details\<close> and its \<^verbatim>\<open>fieldErrors\<close>. The HTTP status is a number when present.
\<close>

datatype error_obj =
  ErrorObj (cls: error_class) (entry: "error_entry option")
    (details: "error_obj details option") (fieldErrors: "field_error list option")

text \<open>
  Modelled from the spec: \<^verbatim>\<open>lib/braintree-error\<close> is not among the sources. Section 3
  has a classified error hold kind, code, message and details;
  \<^verbatim>\<open>new BraintreeError(options)\<close> is the object of that class with them.
\<close>

definition BraintreeError :: "error_entry \<Rightarrow> error_obj details option \<Rightarrow> error_obj" where
  "BraintreeError e d = ErrorObj BraintreeErrorClass (Some e) d None"

text \<open>The assignment \<^verbatim>\<open>formattedError.details = d\<close>.\<close>

definition setDetails :: "error_obj \<Rightarrow> error_obj details \<Rightarrow> error_obj" where
  "setDetails err d = ErrorObj (cls err) (entry err) (Some d) (fieldErrors err)"

text \<open>The \<^verbatim>\<open>TypeError\<close> of a property read on \<^verbatim>\<open>undefined\<close> or \<^verbatim>\<open>null\<close>.\<close>

definition typeError :: error_obj where
  "typeError = ErrorObj TypeErrorClass None None None"

text \<open>The four entries of \<^verbatim>\<open>shared/errors\<close> that the file names.\<close>

record errors_module =
  HOSTED_FIELDS_FIELDS_EMPTY :: error_entry
  HOSTED_FIELDS_FIELDS_INVALID :: error_entry
  HOSTED_FIELDS_FAILED_TOKENIZATION :: error_entry
  HOSTED_FIELDS_TOKENIZATION_NETWORK_ERROR :: error_entry

text \<open>
  What the file requires and the sources do not hold, as parameters: \<^verbatim>\<open>shared/errors\<close>,
  the table \<^verbatim>\<open>constants.tokenizationErrorCodes\<close>, \<^verbatim>\<open>BraintreeError.findRootError\<close>
  (which may throw), \<^verbatim>\<open>convertToBraintreeError\<close> (whose first argument is
  \<^verbatim>\<open>undefined\<close> when \<^verbatim>\<open>findRootError\<close> threw) and \<^verbatim>\<open>formatCardRequestData\<close>;
  the last two return normally.
\<close>

record modules =
  errors :: errors_module
  tokenizationErrorCodes :: "error_entry js_object"
  findRootError :: "error_obj \<Rightarrow> error_obj + error_obj"
  convertToBraintreeError :: "error_obj option \<Rightarrow> error_entry \<Rightarrow> error_obj"
  formatCardRequestData :: "string js_object \<Rightarrow> jsval js_object"

subsection \<open>\<^verbatim>\<open>formatTokenizationError\<close>, lines 334-360\<close>

text \<open>
  Line 343, \<^verbatim>\<open>rootError.fieldErrors[0].fieldErrors[0].code\<close>. Indexing \<^verbatim>\<open>undefined\<close>
  and reading a property of \<^verbatim>\<open>undefined\<close> throw; a missing \<^verbatim>\<open>code\<close> is
  \<^verbatim>\<open>undefined\<close> and does not.
\<close>

definition nestedCode :: "error_obj \<Rightarrow> error_obj + string option" where
  "nestedCode rootError =
     (case fieldErrors rootError of
        None \<Rightarrow> Inl typeError
      | Some [] \<Rightarrow> Inl typeError
      | Some (fe # _) \<Rightarrow>
          (case fe_fieldErrors fe of
             None \<Rightarrow> Inl typeError
           | Some [] \<Rightarrow> Inl typeError
           | Some (fe' # _) \<Rightarrow> Inr (fe_code fe')))"

text \<open>
  Lines 341-346, the \<^verbatim>\<open>try\<close> with its empty \<^verbatim>\<open>catch\<close>: the values of
  \<^verbatim>\<open>rootError\<close> and \<^verbatim>\<open>code\<close> after it. A variable that was not assigned before the
  throw stays \<^verbatim>\<open>undefined\<close>.
\<close>

definition extractRootAndCode :: "modules \<Rightarrow> error_obj \<Rightarrow> error_obj option \<times> string option" where
  "extractRootAndCode M err =
     (case findRootError M err of
        Inl thrown \<Rightarrow> (None, None)
      | Inr rootError \<Rightarrow>
          (case nestedCode rootError of
             Inl thrown \<Rightarrow> (Some rootError, None)
           | Inr c \<Rightarrow> (Some rootError, c)))"

text \<open>A value used as a property key: \<^verbatim>\<open>undefined\<close> is the key \<^verbatim>\<open>"undefined"\<close>.\<close>

definition propertyKey :: "string option \<Rightarrow> string" where
  "propertyKey c = (case c of None \<Rightarrow> ''undefined'' | Some k \<Rightarrow> k)"

text \<open>Line 336, \<^verbatim>\<open>err.details && err.details.httpStatus\<close>.\<close>

definition statusOf :: "error_obj \<Rightarrow> int option" where
  "statusOf err = (case details err of None \<Rightarrow> None | Some d \<Rightarrow> httpStatus d)"

text \<open>\<^verbatim>\<open>status < 500\<close>, false when the status is \<^verbatim>\<open>undefined\<close>.\<close>

definition below500 :: "int option \<Rightarrow> bool" where
  "below500 status = (case status of None \<Rightarrow> False | Some s \<Rightarrow> s < 500)"

definition formatTokenizationError :: "modules \<Rightarrow> error_obj \<Rightarrow> error_obj" where
  "formatTokenizationError M err =
     (let status = statusOf err in
      if status = Some 403 then err
      else if below500 status then
        (case extractRootAndCode M err of
           (rootError, c) \<Rightarrow>
             (case map_of (tokenizationErrorCodes M) (propertyKey c) of
                Some e \<Rightarrow> convertToBraintreeError M rootError e
              | None \<Rightarrow>
                  setDetails (BraintreeError (HOSTED_FIELDS_FAILED_TOKENIZATION (errors M)) None)
                    (Details None (Some err) None)))
      else
        setDetails (BraintreeError (HOSTED_FIELDS_TOKENIZATION_NETWORK_ERROR (errors M)) None)
          (Details None (Some err) None))"

subsection \<open>\<^verbatim>\<open>createTokenizationHandler\<close>, lines 251-332\<close>

text \<open>
  The card form, \<^verbatim>\<open>./models/credit-card-form\<close>, is not among the sources: its three
  methods are parameters, each a function of \<^verbatim>\<open>fieldsToTokenize\<close>.
\<close>

record card_form =
  isEmpty :: "string list option \<Rightarrow> bool"
  invalidFieldKeys :: "string list option \<Rightarrow> string list"
  getCardData :: "string list option \<Rightarrow> string js_object"

text \<open>
  The argument of \<^verbatim>\<open>client.request\<close>; \<open>httpMethod\<close> is its \<^verbatim>\<open>method\<close> property.
\<close>

record request_options =
  api :: string
  httpMethod :: string
  endpoint :: string
  data :: "jsval js_object"

text \<open>How the promise of \<^verbatim>\<open>client.request\<close> settles.\<close>

datatype request_outcome = Fulfilled jsval | Rejected error_obj

record client =
  request :: "request_options \<Rightarrow> request_outcome"

text \<open>
  An element of the array passed to \<^verbatim>\<open>reply\<close>, and the calls on collaborators that the
  handler makes: \<^verbatim>\<open>reply\<close>, \<^verbatim>\<open>client.request\<close> and \<^verbatim>\<open>analytics.sendEvent\<close>.
\<close>

datatype reply_arg = RNull | RError error_obj | RResult "jsval js_object"

datatype event =
    Reply "reply_arg list"
  | Request request_options
  | SendEvent string

text \<open>
  Reading a property whose name no built-in prototype defines: it throws on
  \<^verbatim>\<open>undefined\<close> and \<^verbatim>\<open>null\<close>, gives the property of an object and
  \<^verbatim>\<open>undefined\<close> on anything else.
\<close>

definition js_member :: "jsval \<Rightarrow> string \<Rightarrow> error_obj + jsval" where
  "js_member v k =
     (case v of
        JUndefined \<Rightarrow> Inl typeError
      | JNull \<Rightarrow> Inl typeError
      | JObj props \<Rightarrow> Inr (case map_of props k of None \<Rightarrow> JUndefined | Some x \<Rightarrow> x)
      | _ \<Rightarrow> Inr JUndefined)"

text \<open>\<^verbatim>\<open>v[0]\<close>: the first element of an array, the first character of a string.\<close>

definition js_first :: "jsval \<Rightarrow> error_obj + jsval" where
  "js_first v =
     (case v of
        JUndefined \<Rightarrow> Inl typeError
      | JNull \<Rightarrow> Inl typeError
      | JArr xs \<Rightarrow> Inr (case xs of [] \<Rightarrow> JUndefined | x # _ \<Rightarrow> x)
      | JStr s \<Rightarrow> Inr (case s of [] \<Rightarrow> JUndefined | c # _ \<Rightarrow> JStr [c])
      | JObj props \<Rightarrow> Inr (case map_of props ''0'' of None \<Rightarrow> JUndefined | Some x \<Rightarrow> x)
      | _ \<Rightarrow> Inr JUndefined)"

text \<open>Sequencing of steps that may throw.\<close>

definition andThen :: "'e + 'a \<Rightarrow> ('a \<Rightarrow> 'e + 'b) \<Rightarrow> 'e + 'b" where
  "andThen r f = (case r of Inl thrown \<Rightarrow> Inl thrown | Inr v \<Rightarrow> f v)"

text \<open>
  Lines 307-318, the reads of the continuation of a fulfilled request: the
  \<^verbatim>\<open>result\<close> it builds, or the \<^verbatim>\<open>TypeError\<close> of a read.
\<close>

definition tokenizationResult :: "jsval \<Rightarrow> error_obj + jsval js_object" where
  "tokenizationResult clientApiResult =
     andThen (js_member clientApiResult ''creditCards'') (\<lambda>creditCards.
     andThen (js_first creditCards) (\<lambda>clientApiCreditCard.
     andThen (js_member clientApiCreditCard ''nonce'') (\<lambda>nonce.
     andThen (js_member clientApiCreditCard ''details'') (\<lambda>details.
     andThen (js_member clientApiCreditCard ''description'') (\<lambda>description.
     andThen (js_member clientApiCreditCard ''type'') (\<lambda>type.
     andThen (js_member clientApiCreditCard ''binData'') (\<lambda>binData.
     andThen (js_member clientApiCreditCard ''authenticationInsight'') (\<lambda>insight.
       let result = [(''nonce'', nonce), (''details'', details), (''description'', description),
                     (''type'', type), (''binData'', binData)]
       in Inr (if js_truthy insight
               then AList.update ''authenticationInsight'' insight result
               else result)))))))))"

text \<open>
  The two callbacks the handler calls may throw. \<open>reply cb args\<close> is what the call
  \<^verbatim>\<open>reply(args)\<close> throws and \<open>sendEvent cb name\<close> what
  \<^verbatim>\<open>analytics.sendEvent(clientInstanceOrPromise, name)\<close> throws, \<open>None\<close> when the
  call returns. What is thrown is an object.
\<close>

record callbacks =
  reply :: "reply_arg list \<Rightarrow> error_obj option"
  sendEvent :: "string \<Rightarrow> error_obj option"

text \<open>
  A piece of code that was run: the calls it made, in order, and what it threw, \<open>None\<close>
  when it ran to its end. A call that throws was made all the same.
\<close>

type_synonym run = "event list \<times> error_obj option"

definition callReply :: "callbacks \<Rightarrow> reply_arg list \<Rightarrow> run" where
  "callReply cb args = ([Reply args], reply cb args)"

definition callSendEvent :: "callbacks \<Rightarrow> string \<Rightarrow> run" where
  "callSendEvent cb name = ([SendEvent name], sendEvent cb name)"

text \<open>One statement after another: the second runs only if the first did not throw.\<close>

definition thenRun :: "run \<Rightarrow> run \<Rightarrow> run" where
  "thenRun a b =
     (case snd a of
        Some thrown \<Rightarrow> (fst a, Some thrown)
      | None \<Rightarrow> (fst a @ fst b, snd b))"

text \<open>
  Lines 306-322, the continuation of a fulfilled request: the reads, then
  \<^verbatim>\<open>analytics.sendEvent\<close> (line 320), then \<^verbatim>\<open>reply([null, result])\<close> (line 322).
\<close>

definition onFulfilled :: "callbacks \<Rightarrow> jsval \<Rightarrow> run" where
  "onFulfilled cb clientApiResult =
     (case tokenizationResult clientApiResult of
        Inl thrown \<Rightarrow> ([], Some thrown)
      | Inr result \<Rightarrow>
          thenRun (callSendEvent cb ''custom.hosted-fields.tokenization.succeeded'')
            (callReply cb [RNull, RResult result]))"

text \<open>
  Lines 323-329, the \<^verbatim>\<open>catch\<close> of the chain: the classification, then
  \<^verbatim>\<open>analytics.sendEvent\<close> (line 326), then \<^verbatim>\<open>reply([formattedError])\<close> (line 328).
\<close>

definition onRejected :: "modules \<Rightarrow> callbacks \<Rightarrow> error_obj \<Rightarrow> run" where
  "onRejected M cb clientApiError =
     (let formattedError = formatTokenizationError M clientApiError
      in thenRun (callSendEvent cb ''custom.hosted-fields.tokenization.failed'')
           (callReply cb [RError formattedError]))"

text \<open>Lines 279-305: the request sent to the gateway.\<close>

definition tokenizationRequest :: "modules \<Rightarrow> card_form \<Rightarrow> tokenize_options \<Rightarrow> request_options" where
  "tokenizationRequest M cardForm options =
     (let merchantAccountIdForAuthInsight =
            (case authenticationInsight options of None \<Rightarrow> None | Some a \<Rightarrow> merchantAccountId a);
          mergedCardData = mergeCardData (getCardData cardForm (fieldsToTokenize options)) options;
          creditCardDetails = formatCardRequestData M mergedCardData;
          creditCardDetails' =
            AList.update ''options'' (JObj [(''validate'', JBool (vault options = Some True))])
              creditCardDetails;
          data0 = [(''_meta'', JObj [(''source'', JStr ''hosted-fields'')]),
                   (''creditCard'', JObj creditCardDetails')];
          data1 = (case merchantAccountIdForAuthInsight of
                     None \<Rightarrow> data0
                   | Some i \<Rightarrow>
                       if i = [] then data0
                       else AList.update ''merchantAccountId'' (JStr i)
                              (AList.update ''authenticationInsight'' (JBool True) data0))
      in \<lparr>api = ''clientApi'', httpMethod = ''post'', endpoint = ''payment_methods/credit_cards'',
          data = data1\<rparr>)"

text \<open>
  The handler returned by \<^verbatim>\<open>createTokenizationHandler\<close>, applied to \<^verbatim>\<open>options\<close> and
  \<^verbatim>\<open>reply\<close>. Its body is the continuation of
  \<^verbatim>\<open>Promise.resolve(clientInstanceOrPromise)\<close>: \<open>client\<close> is the client that promise
  resolves to. The result is the trace of the calls made, in order.

  \<^item> \<open>optionsArg\<close> is \<open>None\<close> when \<^verbatim>\<open>options\<close> is \<^verbatim>\<open>undefined\<close>: line 257 then
    throws in the continuation, before any call, and nothing catches it.
  \<^item> A throw of \<^verbatim>\<open>reply\<close> at line 265 or 269 ends the continuation; the call was made.
  \<^item> The promise of \<^verbatim>\<open>client.request\<close> settles, fulfilled with a value or rejected with
    an object. The continuation of line 306 runs on a fulfilled request. The
    \<^verbatim>\<open>catch\<close> of line 323 runs on a rejected request and on whatever the continuation
    of line 306 throws, be it by a read, by \<^verbatim>\<open>analytics.sendEvent\<close> or by
    \<^verbatim>\<open>reply\<close>; the calls of the two are then both in the trace.
  \<^item> What the \<^verbatim>\<open>catch\<close> itself throws is caught by nothing.
\<close>

definition createTokenizationHandler ::
  "modules \<Rightarrow> callbacks \<Rightarrow> client \<Rightarrow> card_form \<Rightarrow> tokenize_options option \<Rightarrow> event list" where
  "createTokenizationHandler M cb client cardForm optionsArg =
     (case optionsArg of
        None \<Rightarrow> []
      | Some options \<Rightarrow>
          (let fields = fieldsToTokenize options;
               fieldsEmpty = isEmpty cardForm fields;
               invalidKeys = invalidFieldKeys cardForm fields;
               isValid = (length invalidKeys = 0)
           in if fieldsEmpty then
                fst (callReply cb
                       [RError (BraintreeError (HOSTED_FIELDS_FIELDS_EMPTY (errors M)) None)])
              else if \<not> isValid then
                fst (callReply cb
                       [RError (BraintreeError
                          \<lparr>type = type (HOSTED_FIELDS_FIELDS_INVALID (errors M)),
                           code = code (HOSTED_FIELDS_FIELDS_INVALID (errors M)),
                           message = message (HOSTED_FIELDS_FIELDS_INVALID (errors M))\<rparr>
                          (Some (Details None None (Some invalidKeys))))])
              else
                (let req = tokenizationRequest M cardForm options
                 in Request req #
                    (case request client req of
                       Fulfilled clientApiResult \<Rightarrow>
                         (case onFulfilled cb clientApiResult of
                            (events, None) \<Rightarrow> events
                          | (events, Some thrown) \<Rightarrow> events @ fst (onRejected M cb thrown))
                     | Rejected clientApiError \<Rightarrow> fst (onRejected M cb clientApiError)))))"

text \<open>The arrays that a trace passes to \<^verbatim>\<open>reply\<close>, and the requests it sends.\<close>

fun replies :: "event list \<Rightarrow> reply_arg list list" where
  "replies [] = []"
| "replies (Reply args # es) = args # replies es"
| "replies (_ # es) = replies es"

fun requests :: "event list \<Rightarrow> request_options list" where
  "requests [] = []"
| "requests (Request r # es) = r # requests es"
| "requests (_ # es) = requests es"

subsection \<open>Concrete collaborators for the examples\<close>

text \<open>
  The examples below run the functions on these values: four error entries, a table with
  one code, a \<^verbatim>\<open>findRootError\<close> that returns its argument, a
  \<^verbatim>\<open>convertToBraintreeError\<close> that wraps the root error, a
  \<^verbatim>\<open>formatCardRequestData\<close> that keeps every property, a card form with fixed answers,
  a client whose request settles in a given way, and callbacks.
\<close>

definition exampleErrors :: errors_module where
  "exampleErrors =
     \<lparr>HOSTED_FIELDS_FIELDS_EMPTY =
        \<lparr>type = ''CUSTOMER'', code = ''HOSTED_FIELDS_FIELDS_EMPTY'',
         message = ''All fields are empty.''\<rparr>,
      HOSTED_FIELDS_FIELDS_INVALID =
        \<lparr>type = ''CUSTOMER'', code = ''HOSTED_FIELDS_FIELDS_INVALID'',
         message = ''Some fields are invalid.''\<rparr>,
      HOSTED_FIELDS_FAILED_TOKENIZATION =
        \<lparr>type = ''CUSTOMER'', code = ''HOSTED_FIELDS_FAILED_TOKENIZATION'',
         message = ''The card could not be tokenized.''\<rparr>,
      HOSTED_FIELDS_TOKENIZATION_NETWORK_ERROR =
        \<lparr>type = ''NETWORK'', code = ''HOSTED_FIELDS_TOKENIZATION_NETWORK_ERROR'',
         message = ''A network error occurred.''\<rparr>\<rparr>"

definition exampleModules :: modules where
  "exampleModules =
     \<lparr>errors = exampleErrors,
      tokenizationErrorCodes =
        [(''81724'', \<lparr>type = ''CUSTOMER'', code = ''HOSTED_FIELDS_TOKENIZATION_FAIL_ON_DUPLICATE'',
                      message = ''The card is a duplicate.''\<rparr>)],
      findRootError = (\<lambda>err. Inr err),
      convertToBraintreeError =
        (\<lambda>rootError e. BraintreeError e (Some (Details None rootError None))),
      formatCardRequestData = map (\<lambda>(k, v). (k, JStr v))\<rparr>"

text \<open>A gateway failure with a given HTTP status and a given nested code.\<close>

definition exampleFailure :: "int option \<Rightarrow> string option \<Rightarrow> error_obj" where
  "exampleFailure status c =
     ErrorObj ObjectClass None (Some (Details status None None))
       (Some [FieldError None (Some [FieldError c None])])"

definition exampleCardData :: "string js_object" where
  "exampleCardData = [(''number'', ''4111111111111111''), (''cvv'', ''123'')]"

definition exampleCardForm :: "bool \<Rightarrow> string list \<Rightarrow> card_form" where
  "exampleCardForm e invalid =
     \<lparr>isEmpty = (\<lambda>fields. e),
      invalidFieldKeys = (\<lambda>fields. invalid),
      getCardData = (\<lambda>fields. exampleCardData)\<rparr>"

definition exampleOptions :: tokenize_options where
  "exampleOptions =
     \<lparr>fieldsToTokenize = Some [''number'', ''cvv''],
      billingAddress = Some [(''postalCode'', ''60654''), (''cvv'', ''999''), (''nickname'', ''x'')],
      cardholderName = Some ''Ada Lovelace'',
      vault = Some True,
      authenticationInsight = None\<rparr>"

definition exampleClient :: "request_outcome \<Rightarrow> client" where
  "exampleClient outcome = \<lparr>request = (\<lambda>req. outcome)\<rparr>"

text \<open>Callbacks that return, and callbacks whose \<^verbatim>\<open>reply\<close> throws a \<^verbatim>\<open>TypeError\<close>.\<close>

definition exampleCallbacks :: callbacks where
  "exampleCallbacks = \<lparr>reply = (\<lambda>args. None), sendEvent = (\<lambda>name. None)\<rparr>"

definition exampleThrowingReply :: callbacks where
  "exampleThrowingReply = \<lparr>reply = (\<lambda>args. Some typeError), sendEvent = (\<lambda>name. None)\<rparr>"

section \<open>Properties\<close>

subsection \<open>Autofill\<close>

lemma js_String_20: "js_String 20 = ''20''"
  by (simp add: js_String.simps digit_char_def)

lemma century_20:
  assumes "2000 \<le> n" and "n < 2100"
  shows "take 2 (js_String n) = ''20''"
proof -
  have a: "n div 100 = 20" using assms by auto
  have b: "\<not> n < 10" "\<not> n div 10 < 10" using assms by auto
  have "n div 10 div 10 = 20" using a by (simp add: div_mult2_eq)
  then have "js_String n = ''20'' @ [digit_char (n div 10 mod 10)] @ [digit_char (n mod 10)]"
    using b js_String.simps[of n] js_String.simps[of "n div 10"] js_String_20 by simp
  then show ?thesis by simp
qed

text \<open>
  C7. When the payload's year has exactly two characters (and the month is not empty, so
  that the handler goes on), the year the handler works with is the first two characters
  of the current full year followed by the payload's year. The frame of role
  \<^verbatim>\<open>expirationYear\<close> receives that year as its value and the frame of role
  \<^verbatim>\<open>expirationDate\<close> receives month, \<^verbatim>\<open>' / '\<close> and that year. In any year from 2000
  to 2099 the year \<^verbatim>\<open>"29"\<close> becomes \<^verbatim>\<open>"2029"\<close>.
\<close>

theorem autofill_two_digit_year:
  assumes "length y = 2" and "m \<noteq> []"
  shows "widenYear fullYear y = take 2 (js_String fullYear) @ y
       \<and> autofillHandler fullYear ''expirationYear'' fc (Some \<lparr>month = Some m, year = Some y, cvv = c\<rparr>)
           = [UpdateModel ''value'' (take 2 (js_String fullYear) @ y)]
             @ (if shouldMask fc then [MaskValue (take 2 (js_String fullYear) @ y)]
                else [SetElementValue (take 2 (js_String fullYear) @ y)])
             @ resetPlaceholder fc
       \<and> autofillHandler fullYear ''expirationDate'' fc (Some \<lparr>month = Some m, year = Some y, cvv = c\<rparr>)
           = [UpdateModel ''value'' (m @ '' / '' @ take 2 (js_String fullYear) @ y)]
             @ (if shouldMask fc then [MaskValue (m @ '' / '' @ take 2 (js_String fullYear) @ y)]
                else [SetElementValue (m @ '' / '' @ take 2 (js_String fullYear) @ y)])
             @ resetPlaceholder fc
       \<and> (2000 \<le> fullYear \<and> fullYear < 2100 \<longrightarrow> widenYear fullYear ''29'' = ''2029'')"
proof -
  have y: "y \<noteq> []" using assms(1) by auto
  have w: "widenYear fullYear y = take 2 (js_String fullYear) @ y"
    using assms(1) by (simp add: widenYear_def)
  have c: "2000 \<le> fullYear \<and> fullYear < 2100 \<longrightarrow> widenYear fullYear ''29'' = ''2029''"
    using century_20[of fullYear] by (simp add: widenYear_def)
  show ?thesis
    using y assms(2) w c by (simp add: autofillHandler_def autofillValue_def Let_def)
qed

theorem autofill_two_digit_year_witness:
  "autofillHandler 2026 ''expirationYear'' \<lparr>shouldMask = False, placeholder = Some ''YY''\<rparr>
      (Some \<lparr>month = Some ''07'', year = Some ''29'', cvv = None\<rparr>)
    = [UpdateModel ''value'' ''2029'', SetElementValue ''2029'',
       SetAttribute ''placeholder'' '''', SetAttribute ''placeholder'' ''YY'']"
  using autofill_two_digit_year[where y = "''29''" and m = "''07''" and fullYear = 2026
          and fc = "\<lparr>shouldMask = False, placeholder = Some ''YY''\<rparr>" and c = None]
    century_20[of 2026]
  by (simp add: resetPlaceholder_def truthy_def)

text \<open>
  C10. The handler makes no call on the field component (no model update, no masking, no
  display value, no placeholder attribute written) when the payload is absent, when its
  month or its year is absent or empty, when the frame's role is none of
  \<^verbatim>\<open>expirationDate\<close>, \<^verbatim>\<open>expirationMonth\<close>, \<^verbatim>\<open>expirationYear\<close> and
  \<^verbatim>\<open>cvv\<close>, and when the role is \<^verbatim>\<open>cvv\<close> and the payload's cvv is absent or empty.
\<close>

theorem autofill_no_effect:
  assumes "case payload of
             None \<Rightarrow> True
           | Some p \<Rightarrow>
               \<not> truthy (month p) \<or> \<not> truthy (year p)
               \<or> name \<notin> {''expirationDate'', ''expirationMonth'', ''expirationYear'', ''cvv''}
               \<or> (name = ''cvv'' \<and> \<not> truthy (cvv p))"
  shows "autofillHandler fullYear name fc payload = []"
proof (cases payload)
  case None
  then show ?thesis by (simp add: autofillHandler_def)
next
  case (Some p)
  show ?thesis
  proof (cases "month p")
    case None
    then show ?thesis using Some by (simp add: autofillHandler_def)
  next
    case m: (Some m)
    show ?thesis
    proof (cases "year p")
      case None
      then show ?thesis using Some m by (simp add: autofillHandler_def)
    next
      case y: (Some y0)
      show ?thesis
      proof (cases "m = [] \<or> y0 = []")
        case True
        then show ?thesis using Some m y by (auto simp: autofillHandler_def)
      next
        case False
        then have "name \<notin> {''expirationDate'', ''expirationMonth'', ''expirationYear'', ''cvv''}
                   \<or> (name = ''cvv'' \<and> \<not> truthy (cvv p))"
          using assms Some m y by (auto simp: truthy_def)
        then have "autofillValue name m (widenYear fullYear y0) (cvv p) = None"
          by (auto simp: autofillValue_def)
        then show ?thesis using Some m y False by (simp add: autofillHandler_def)
      qed
    qed
  qed
qed

theorem autofill_no_effect_witness:
  "autofillHandler 2026 ''cvv'' \<lparr>shouldMask = True, placeholder = Some ''CVV''\<rparr>
      (Some \<lparr>month = Some ''07'', year = Some ''29'', cvv = Some ''''\<rparr>) = []
   \<and> autofillHandler 2026 ''number'' \<lparr>shouldMask = True, placeholder = Some ''Card''\<rparr>
      (Some \<lparr>month = Some ''07'', year = Some ''29'', cvv = Some ''123''\<rparr>) = []
   \<and> autofillHandler 2026 ''expirationDate'' \<lparr>shouldMask = True, placeholder = None\<rparr>
      (Some \<lparr>month = Some '''', year = Some ''29'', cvv = Some ''123''\<rparr>) = []
   \<and> autofillHandler 2026 ''expirationDate'' \<lparr>shouldMask = True, placeholder = None\<rparr> None = []"
  using autofill_no_effect[where payload = "Some \<lparr>month = Some ''07'', year = Some ''29'', cvv = Some ''''\<rparr>"
          and name = "''cvv''" and fullYear = 2026
          and fc = "\<lparr>shouldMask = True, placeholder = Some ''CVV''\<rparr>"]
    autofill_no_effect[where payload = "Some \<lparr>month = Some ''07'', year = Some ''29'', cvv = Some ''123''\<rparr>"
          and name = "''number''" and fullYear = 2026
          and fc = "\<lparr>shouldMask = True, placeholder = Some ''Card''\<rparr>"]
    autofill_no_effect[where payload = "Some \<lparr>month = Some '''', year = Some ''29'', cvv = Some ''123''\<rparr>"
          and name = "''expirationDate''" and fullYear = 2026
          and fc = "\<lparr>shouldMask = True, placeholder = None\<rparr>"]
    autofill_no_effect[where payload = None and name = "''expirationDate''" and fullYear = 2026
          and fc = "\<lparr>shouldMask = True, placeholder = None\<rparr>"]
  by (simp add: truthy_def)

subsection \<open>Dictionaries\<close>

lemma map_of_fold_update:
  "map_of (fold (\<lambda>(k, v). AList.update k v) props obj) = map_of obj ++ map_of (rev props)"
proof (induction props arbitrary: obj)
  case Nil
  then show ?case by simp
next
  case (Cons p props)
  obtain k v where p: "p = (k, v)" by (cases p)
  have "map_of (fold (\<lambda>(k, v). AList.update k v) (p # props) obj)
        = map_of (fold (\<lambda>(k, v). AList.update k v) props (AList.update k v obj))"
    by (simp add: p)
  also have "\<dots> = map_of (AList.update k v obj) ++ map_of (rev props)"
    by (rule Cons.IH)
  also have "\<dots> = map_of obj ++ map_of (rev (p # props))"
    by (rule ext) (simp add: p map_of_append map_add_def AList.update_conv' split: option.splits)
  finally show ?case .
qed

lemma map_of_rev_distinct:
  "distinct (map fst xs) \<Longrightarrow> map_of (rev xs) = map_of xs"
proof (induction xs)
  case Nil
  then show ?case by simp
next
  case (Cons p xs)
  obtain k v where p: "p = (k, v)" by (cases p)
  have notin: "map_of xs k = None"
    using Cons.prems p by (simp add: map_of_eq_None_iff)
  have ih: "map_of (rev xs) = map_of xs" using Cons by simp
  show ?case
  proof
    fix x
    show "map_of (rev (p # xs)) x = map_of (p # xs) x"
      using p ih notin
      by (cases "x = k") (simp_all add: map_of_append map_add_def split: option.splits)
  qed
qed

lemma distinct_fold_update:
  "distinct (map fst obj) \<Longrightarrow> distinct (map fst (fold (\<lambda>(k, v). AList.update k v) props obj))"
proof (induction props arbitrary: obj)
  case Nil
  then show ?case by simp
next
  case (Cons p props)
  obtain k v where p: "p = (k, v)" by (cases p)
  have "distinct (map fst (AList.update k v obj))"
    using Cons.prems by (rule AList.distinct_update)
  then show ?case using Cons.IH[of "AList.update k v obj"] p by simp
qed

lemma map_of_fold_delete:
  "map_of (fold (\<lambda>field obj. if P field then AList.delete field obj else obj) ks obj) k
   = (if k \<in> set ks \<and> P k then None else map_of obj k)"
proof (induction ks arbitrary: obj)
  case Nil
  then show ?case by simp
next
  case (Cons f ks)
  show ?case
  proof (cases "P f")
    case True
    then show ?thesis
      using Cons.IH[of "AList.delete f obj"] by (simp add: AList.delete_conv')
  next
    case False
    then show ?thesis
      using Cons.IH[of obj] by auto
  qed
qed

lemma distinct_fold_delete:
  "distinct (map fst obj) \<Longrightarrow>
   distinct (map fst (fold (\<lambda>field obj. if P field then AList.delete field obj else obj) ks obj))"
proof (induction ks arbitrary: obj)
  case Nil
  then show ?case by simp
next
  case (Cons f ks)
  have "distinct (map fst (if P f then AList.delete f obj else obj))"
    using Cons.prems by (simp add: AList.distinct_delete)
  then show ?case using Cons.IH[of "if P f then AList.delete f obj else obj"] by simp
qed

lemma map_of_assign_billing:
  assumes "case b of None \<Rightarrow> True | Some props \<Rightarrow> distinct (map fst props)"
  shows "map_of (assign [] [b]) k = (case b of None \<Rightarrow> None | Some props \<Rightarrow> map_of props k)"
    and "distinct (map fst (assign [] [b]))"
  using assms
  by (cases b; simp add: assign_def map_of_fold_update map_of_rev_distinct distinct_fold_update)+

lemma map_of_assign_two:
  assumes "distinct (map fst a)" and "distinct (map fst b)"
  shows "map_of (assign [] [Some a, Some b]) = map_of a ++ map_of b"
  using assms by (simp add: assign_def map_of_fold_update map_of_rev_distinct)

subsection \<open>Merging the card data\<close>

lemma map_of_dropDisallowed:
  "map_of (dropDisallowed cardData u) k
   = (if k \<notin> set ALLOWED_BILLING_ADDRESS_FIELDS \<or> hasOwnProperty cardData k then None
      else map_of u k)"
proof -
  have "k \<notin> set (map fst u) \<Longrightarrow> map_of u k = None"
    by (simp add: map_of_eq_None_iff)
  then show ?thesis
    unfolding dropDisallowed_def
    by (simp only: map_of_fold_delete split: if_splits) blast
qed

lemma distinct_dropDisallowed:
  "distinct (map fst u) \<Longrightarrow> distinct (map fst (dropDisallowed cardData u))"
  unfolding dropDisallowed_def by (rule distinct_fold_delete)

text \<open>
  C9. Card data and billing address being objects (no key twice), the merged data has,
  under every key \<open>k\<close>: the caller's cardholder name when \<open>k\<close> is
  \<^verbatim>\<open>cardholderName\<close> and the name was supplied (it is not empty); otherwise the card
  data's value when the card data has the key; otherwise the billing address's value when
  \<open>k\<close> is on the allow-list; otherwise nothing. So a billing-address field is in the
  result only if its key is on the allow-list and the card data has no such key.
\<close>

theorem mergeCardData_lookup:
  assumes "distinct (map fst cardData)"
    and "case billingAddress options of None \<Rightarrow> True | Some b \<Rightarrow> distinct (map fst b)"
  shows "map_of (mergeCardData cardData options) k =
     (if k = ''cardholderName'' \<and> truthy (cardholderName options) then cardholderName options
      else case map_of cardData k of
             Some v \<Rightarrow> Some v
           | None \<Rightarrow>
               if k \<in> set ALLOWED_BILLING_ADDRESS_FIELDS
               then (case billingAddress options of None \<Rightarrow> None | Some b \<Rightarrow> map_of b k)
               else None)"
proof -
  define u where "u = assign [] [billingAddress options]"
  define u' where "u' = dropDisallowed cardData u"
  define u'' where "u'' = (case cardholderName options of
               None \<Rightarrow> u'
             | Some n \<Rightarrow> if n = [] then u' else AList.update ''cardholderName'' n u')"
  have m: "mergeCardData cardData options = assign [] [Some cardData, Some u'']"
    unfolding mergeCardData_def Let_def u''_def u'_def u_def by (rule refl)
  have u: "map_of u k = (case billingAddress options of None \<Rightarrow> None | Some b \<Rightarrow> map_of b k)"
    and du: "distinct (map fst u)"
    unfolding u_def using map_of_assign_billing[OF assms(2)] by auto
  have du': "distinct (map fst u')"
    unfolding u'_def using du by (rule distinct_dropDisallowed)
  have u': "map_of u' k = (if k \<notin> set ALLOWED_BILLING_ADDRESS_FIELDS \<or> hasOwnProperty cardData k
      then None else map_of u k)"
    unfolding u'_def by (rule map_of_dropDisallowed)
  have du'': "distinct (map fst u'')"
    unfolding u''_def using du' by (auto split: option.splits simp: AList.distinct_update)
  have u'': "map_of u'' k = (if k = ''cardholderName'' \<and> truthy (cardholderName options)
                             then cardholderName options else map_of u' k)"
    unfolding u''_def by (auto split: option.splits simp: AList.update_conv' truthy_def)
  have h: "hasOwnProperty cardData k \<longleftrightarrow> map_of cardData k \<noteq> None"
    by (simp add: hasOwnProperty_def map_of_eq_None_iff)
  have "map_of (mergeCardData cardData options) k = (map_of cardData ++ map_of u'') k"
    using m map_of_assign_two[OF assms(1) du''] by simp
  also have "\<dots> = (case map_of u'' k of None \<Rightarrow> map_of cardData k | Some v \<Rightarrow> Some v)"
    by (simp add: map_add_def)
  finally show ?thesis
    using u u' u'' h by (auto split: option.splits simp: truthy_def)
qed

theorem mergeCardData_lookup_witness:
  "map_of (mergeCardData exampleCardData exampleOptions) ''postalCode'' = Some ''60654''
   \<and> map_of (mergeCardData exampleCardData exampleOptions) ''cvv'' = Some ''123''
   \<and> map_of (mergeCardData exampleCardData exampleOptions) ''nickname'' = None
   \<and> map_of (mergeCardData exampleCardData exampleOptions) ''cardholderName'' = Some ''Ada Lovelace''"
  using mergeCardData_lookup[where cardData = exampleCardData and options = exampleOptions
          and k = "''postalCode''"]
    mergeCardData_lookup[where cardData = exampleCardData and options = exampleOptions
          and k = "''cvv''"]
    mergeCardData_lookup[where cardData = exampleCardData and options = exampleOptions
          and k = "''nickname''"]
    mergeCardData_lookup[where cardData = exampleCardData and options = exampleOptions
          and k = "''cardholderName''"]
  by (simp add: exampleCardData_def exampleOptions_def ALLOWED_BILLING_ADDRESS_FIELDS_def
        truthy_def)

subsection \<open>Supported card brands\<close>

lemma map_of_fold_accept:
  "map_of (fold (\<lambda>cardBrand brands. AList.update cardBrand True brands) gs acc) b
   = (if b \<in> set gs then Some True else map_of acc b)"
proof (induction gs arbitrary: acc)
  case Nil
  then show ?case by simp
next
  case (Cons g gs)
  show ?case
    using Cons.IH[of "AList.update g True acc"] by (simp add: AList.update_conv')
qed

lemma map_of_fold_override:
  "map_of (fold (\<lambda>(brand, flag) brands. AList.update (norm brand) flag brands) m acc)
   = map_of acc ++ map_of (rev (map (\<lambda>(brand, flag). (norm brand, flag)) m))"
proof -
  have "fold (\<lambda>(brand, flag) brands. AList.update (norm brand) flag brands) m acc
        = fold (\<lambda>(k, v). AList.update k v) (map (\<lambda>(brand, flag). (norm brand, flag)) m) acc"
    by (simp add: fold_map comp_def case_prod_unfold)
  then show ?thesis by (simp only: map_of_fold_update)
qed

text \<open>
  C8. Under every brand \<open>b\<close> the merged set has the flag of the last merchant entry whose
  normalized brand is \<open>b\<close>, when there is one; otherwise it accepts \<open>b\<close> when \<open>b\<close> is
  the normalized name of a brand the gateway supports; otherwise it has no entry. With
  the merchant's \<^verbatim>\<open>{visa: true}\<close> and the gateway's \<^verbatim>\<open>[visa, mastercard]\<close> both brands
  are accepted, and the merchant's \<^verbatim>\<open>{mastercard: false}\<close> turns mastercard off,
  whatever the normalization.
\<close>

theorem getSupportedCardBrands_merge:
  "map_of (getSupportedCardBrands norm creditCards merchant) b =
     (case map_of (rev (map (\<lambda>(brand, flag). (norm brand, flag))
                        (case merchant of None \<Rightarrow> [] | Some m \<Rightarrow> m))) b of
        Some flag \<Rightarrow> Some flag
      | None \<Rightarrow>
          if b \<in> set (map norm (case creditCards of None \<Rightarrow> [] | Some ts \<Rightarrow> ts))
          then Some True else None)
   \<and> map_of (getSupportedCardBrands norm (Some [''visa'', ''mastercard''])
        (Some [(''visa'', True)])) (norm ''visa'') = Some True
   \<and> map_of (getSupportedCardBrands norm (Some [''visa'', ''mastercard''])
        (Some [(''visa'', True)])) (norm ''mastercard'') = Some True
   \<and> map_of (getSupportedCardBrands norm (Some [''visa'', ''mastercard''])
        (Some [(''mastercard'', False)])) (norm ''mastercard'') = Some False"
proof -
  have lookup: "map_of (getSupportedCardBrands norm cc mc) x =
     (case map_of (rev (map (\<lambda>(brand, flag). (norm brand, flag))
                        (case mc of None \<Rightarrow> [] | Some m \<Rightarrow> m))) x of
        Some flag \<Rightarrow> Some flag
      | None \<Rightarrow>
          if x \<in> set (map norm (case cc of None \<Rightarrow> [] | Some ts \<Rightarrow> ts))
          then Some True else None)" for cc mc x
    by (cases cc; cases mc)
       (simp_all add: getSupportedCardBrands_def map_of_fold_override map_add_def
          map_of_fold_accept split: option.splits)
  have visa: "map_of (getSupportedCardBrands norm (Some [''visa'', ''mastercard''])
        (Some [(''visa'', True)])) (norm ''visa'') = Some True"
    by (simp add: lookup)
  have mastercard: "map_of (getSupportedCardBrands norm (Some [''visa'', ''mastercard''])
        (Some [(''visa'', True)])) (norm ''mastercard'') = Some True"
    by (simp add: lookup)
  have off: "map_of (getSupportedCardBrands norm (Some [''visa'', ''mastercard''])
        (Some [(''mastercard'', False)])) (norm ''mastercard'') = Some False"
    by (simp add: lookup)
  show ?thesis
    using lookup[of creditCards merchant b] visa mastercard off by blast
qed

theorem getSupportedCardBrands_merge_witness:
  "map_of (getSupportedCardBrands (\<lambda>t. t) (Some [''visa'', ''mastercard''])
      (Some [(''visa'', True), (''amex'', False)])) ''visa'' = Some True
   \<and> map_of (getSupportedCardBrands (\<lambda>t. t) (Some [''visa'', ''mastercard''])
      (Some [(''visa'', True), (''amex'', False)])) ''mastercard'' = Some True
   \<and> map_of (getSupportedCardBrands (\<lambda>t. t) (Some [''visa'', ''mastercard''])
      (Some [(''visa'', True), (''amex'', False)])) ''amex'' = Some False
   \<and> map_of (getSupportedCardBrands (\<lambda>t. t) (Some [''visa'', ''mastercard''])
      (Some [(''visa'', True), (''amex'', False)])) ''discover'' = None"
  using getSupportedCardBrands_merge[where norm = "\<lambda>t. t" and creditCards = "Some [''visa'', ''mastercard'']"
          and merchant = "Some [(''visa'', True), (''amex'', False)]" and b = "''visa''"]
    getSupportedCardBrands_merge[where norm = "\<lambda>t. t" and creditCards = "Some [''visa'', ''mastercard'']"
          and merchant = "Some [(''visa'', True), (''amex'', False)]" and b = "''mastercard''"]
    getSupportedCardBrands_merge[where norm = "\<lambda>t. t" and creditCards = "Some [''visa'', ''mastercard'']"
          and merchant = "Some [(''visa'', True), (''amex'', False)]" and b = "''amex''"]
    getSupportedCardBrands_merge[where norm = "\<lambda>t. t" and creditCards = "Some [''visa'', ''mastercard'']"
          and merchant = "Some [(''visa'', True), (''amex'', False)]" and b = "''discover''"]
  by simp

subsection \<open>Classifying a failure\<close>

lemma setDetails_BraintreeError:
  "setDetails (BraintreeError e d0) d = BraintreeError e (Some d)"
  by (simp add: setDetails_def BraintreeError_def)

text \<open>
  C4. A failure whose HTTP status is 403 is returned as it is, and classifying the result
  again returns the same object.
\<close>

theorem classifier_403_passthrough:
  assumes "statusOf err = Some 403"
  shows "formatTokenizationError M err = err
       \<and> formatTokenizationError M (formatTokenizationError M err) = err"
  using assms by (simp add: formatTokenizationError_def)

theorem classifier_403_passthrough_witness:
  "formatTokenizationError exampleModules (exampleFailure (Some 403) (Some ''81724''))
     = exampleFailure (Some 403) (Some ''81724'')
   \<and> formatTokenizationError exampleModules
       (formatTokenizationError exampleModules (exampleFailure (Some 403) (Some ''81724'')))
     = exampleFailure (Some 403) (Some ''81724'')"
  using classifier_403_passthrough[where err = "exampleFailure (Some 403) (Some ''81724'')"
          and M = exampleModules]
  by (simp add: statusOf_def exampleFailure_def)

text \<open>
  C5. A failure whose HTTP status is 500 or more, or that has no status (no
  \<^verbatim>\<open>details\<close>, or \<^verbatim>\<open>details\<close> without \<^verbatim>\<open>httpStatus\<close>), is classified as the
  network error, a \<^verbatim>\<open>BraintreeError\<close> of the entry
  \<^verbatim>\<open>HOSTED_FIELDS_TOKENIZATION_NETWORK_ERROR\<close> whose details hold the failure as
  \<^verbatim>\<open>originalError\<close>.
\<close>

theorem classifier_network_error:
  assumes "statusOf err = None \<or> (\<exists>s. statusOf err = Some s \<and> 500 \<le> s)"
  shows "formatTokenizationError M err
         = BraintreeError (HOSTED_FIELDS_TOKENIZATION_NETWORK_ERROR (errors M))
             (Some (Details None (Some err) None))"
  using assms
  by (auto simp: formatTokenizationError_def below500_def setDetails_BraintreeError)

theorem classifier_network_error_witness:
  "formatTokenizationError exampleModules (exampleFailure (Some 503) (Some ''81724''))
     = BraintreeError
         \<lparr>type = ''NETWORK'', code = ''HOSTED_FIELDS_TOKENIZATION_NETWORK_ERROR'',
          message = ''A network error occurred.''\<rparr>
         (Some (Details None (Some (exampleFailure (Some 503) (Some ''81724''))) None))
   \<and> formatTokenizationError exampleModules typeError
     = BraintreeError
         \<lparr>type = ''NETWORK'', code = ''HOSTED_FIELDS_TOKENIZATION_NETWORK_ERROR'',
          message = ''A network error occurred.''\<rparr>
         (Some (Details None (Some typeError) None))"
  using classifier_network_error[where err = "exampleFailure (Some 503) (Some ''81724'')"
          and M = exampleModules]
    classifier_network_error[where err = typeError and M = exampleModules]
  by (simp add: statusOf_def exampleFailure_def typeError_def exampleModules_def
        exampleErrors_def)

text \<open>
  C6. For a failure whose HTTP status is below 500 and not 403, the classifier returns
  the failed-tokenization error, a \<^verbatim>\<open>BraintreeError\<close> of the entry
  \<^verbatim>\<open>HOSTED_FIELDS_FAILED_TOKENIZATION\<close> whose details hold the failure as
  \<^verbatim>\<open>originalError\<close>, in each of these cases: \<^verbatim>\<open>findRootError\<close> throws; reading the
  nested code throws; the nested code is absent; the nested code is not a key of the
  table. In the first three the key looked up is \<^verbatim>\<open>"undefined"\<close>, which the table is
  taken not to hold. The classifier returns a value in every case: what the extraction
  throws goes no further.
\<close>

theorem classifier_failed_tokenization:
  assumes "statusOf err = Some s" and "s < 500" and "s \<noteq> 403"
    and "((\<exists>thrown. findRootError M err = Inl thrown)
            \<and> map_of (tokenizationErrorCodes M) ''undefined'' = None)
       \<or> ((\<exists>rootError thrown. findRootError M err = Inr rootError
                \<and> nestedCode rootError = Inl thrown)
            \<and> map_of (tokenizationErrorCodes M) ''undefined'' = None)
       \<or> ((\<exists>rootError. findRootError M err = Inr rootError \<and> nestedCode rootError = Inr None)
            \<and> map_of (tokenizationErrorCodes M) ''undefined'' = None)
       \<or> (\<exists>rootError c. findRootError M err = Inr rootError
                \<and> nestedCode rootError = Inr (Some c)
                \<and> map_of (tokenizationErrorCodes M) c = None)"
  shows "formatTokenizationError M err
         = BraintreeError (HOSTED_FIELDS_FAILED_TOKENIZATION (errors M))
             (Some (Details None (Some err) None))"
proof -
  obtain r c where rc: "extractRootAndCode M err = (r, c)"
    by (cases "extractRootAndCode M err")
  have "map_of (tokenizationErrorCodes M) (propertyKey c) = None"
    using assms(4) rc by (auto simp: extractRootAndCode_def propertyKey_def)
  then show ?thesis
    using assms(1-3) rc
    by (simp add: formatTokenizationError_def below500_def setDetails_BraintreeError)
qed

theorem classifier_failed_tokenization_witness:
  "formatTokenizationError exampleModules (exampleFailure (Some 404) (Some ''99999''))
     = BraintreeError
         \<lparr>type = ''CUSTOMER'', code = ''HOSTED_FIELDS_FAILED_TOKENIZATION'',
          message = ''The card could not be tokenized.''\<rparr>
         (Some (Details None (Some (exampleFailure (Some 404) (Some ''99999''))) None))
   \<and> formatTokenizationError exampleModules
       (ErrorObj ObjectClass None (Some (Details (Some 422) None None)) None)
     = BraintreeError
         \<lparr>type = ''CUSTOMER'', code = ''HOSTED_FIELDS_FAILED_TOKENIZATION'',
          message = ''The card could not be tokenized.''\<rparr>
         (Some (Details None
            (Some (ErrorObj ObjectClass None (Some (Details (Some 422) None None)) None)) None))"
  using classifier_failed_tokenization[where err = "exampleFailure (Some 404) (Some ''99999'')"
          and M = exampleModules and s = 404]
    classifier_failed_tokenization[where
          err = "ErrorObj ObjectClass None (Some (Details (Some 422) None None)) None"
          and M = exampleModules and s = 422]
  by (simp add: statusOf_def exampleFailure_def exampleModules_def exampleErrors_def
        nestedCode_def)

subsection \<open>The tokenization handler\<close>

lemma entry_copy:
  "\<lparr>type = type e, code = code e, message = message e\<rparr> = (e :: error_entry)"
  by (cases e) simp

text \<open>
  C1. When the card form answers that every requested field is empty, the handler's whole
  trace is one call of \<^verbatim>\<open>reply\<close>, with the array of the one error of the entry
  \<^verbatim>\<open>HOSTED_FIELDS_FIELDS_EMPTY\<close>; \<^verbatim>\<open>client.request\<close> is not called. This holds
  whatever the callbacks do.
\<close>

theorem tokenize_fields_empty:
  assumes "isEmpty cardForm (fieldsToTokenize options)"
  shows "createTokenizationHandler M cb client cardForm (Some options)
         = [Reply [RError (BraintreeError (HOSTED_FIELDS_FIELDS_EMPTY (errors M)) None)]]
       \<and> replies (createTokenizationHandler M cb client cardForm (Some options))
         = [[RError (BraintreeError (HOSTED_FIELDS_FIELDS_EMPTY (errors M)) None)]]
       \<and> requests (createTokenizationHandler M cb client cardForm (Some options)) = []"
  using assms by (simp add: createTokenizationHandler_def callReply_def)

theorem tokenize_fields_empty_witness:
  "createTokenizationHandler exampleModules exampleCallbacks (exampleClient (Fulfilled JNull))
      (exampleCardForm True [''number'', ''cvv'']) (Some exampleOptions)
   = [Reply [RError (BraintreeError
        \<lparr>type = ''CUSTOMER'', code = ''HOSTED_FIELDS_FIELDS_EMPTY'',
         message = ''All fields are empty.''\<rparr> None)]]"
  using tokenize_fields_empty[where cardForm = "exampleCardForm True [''number'', ''cvv'']"
          and options = exampleOptions and M = exampleModules and cb = exampleCallbacks
          and client = "exampleClient (Fulfilled JNull)"]
  by (simp add: exampleCardForm_def exampleModules_def exampleErrors_def)

text \<open>
  C2. When the card form answers that not every requested field is empty and that some
  requested field is invalid (as it does when a requested field is filled in and
  invalid), the handler's whole trace is one call of \<^verbatim>\<open>reply\<close>, with the array of the
  one error of the entry \<^verbatim>\<open>HOSTED_FIELDS_FIELDS_INVALID\<close> whose details hold, as
  \<^verbatim>\<open>invalidFieldKeys\<close>, the list the card form gave of the requested fields that are
  invalid; \<^verbatim>\<open>client.request\<close> is not called. This holds whatever the callbacks do.
\<close>

theorem tokenize_fields_invalid:
  assumes "\<not> isEmpty cardForm (fieldsToTokenize options)"
    and "invalidFieldKeys cardForm (fieldsToTokenize options) \<noteq> []"
  shows "createTokenizationHandler M cb client cardForm (Some options)
         = [Reply [RError (BraintreeError (HOSTED_FIELDS_FIELDS_INVALID (errors M))
              (Some (Details None None
                 (Some (invalidFieldKeys cardForm (fieldsToTokenize options))))))]]
       \<and> replies (createTokenizationHandler M cb client cardForm (Some options))
         = [[RError (BraintreeError (HOSTED_FIELDS_FIELDS_INVALID (errors M))
              (Some (Details None None
                 (Some (invalidFieldKeys cardForm (fieldsToTokenize options))))))]]
       \<and> requests (createTokenizationHandler M cb client cardForm (Some options)) = []"
  using assms by (simp add: createTokenizationHandler_def callReply_def entry_copy)

theorem tokenize_fields_invalid_witness:
  "createTokenizationHandler exampleModules exampleCallbacks (exampleClient (Fulfilled JNull))
      (exampleCardForm False [''cvv'']) (Some exampleOptions)
   = [Reply [RError (BraintreeError
        \<lparr>type = ''CUSTOMER'', code = ''HOSTED_FIELDS_FIELDS_INVALID'',
         message = ''Some fields are invalid.''\<rparr>
        (Some (Details None None (Some [''cvv'']))))]]"
  using tokenize_fields_invalid[where cardForm = "exampleCardForm False [''cvv'']"
          and options = exampleOptions and M = exampleModules and cb = exampleCallbacks
          and client = "exampleClient (Fulfilled JNull)"]
  by (simp add: exampleCardForm_def exampleModules_def exampleErrors_def)

lemma tokenizationResult_throws:
  "tokenizationResult r = Inl thrown \<Longrightarrow> thrown = typeError"
  by (auto simp: tokenizationResult_def andThen_def js_member_def js_first_def Let_def
        split: sum.splits jsval.splits)

lemma format_typeError:
  "formatTokenizationError M typeError
   = BraintreeError (HOSTED_FIELDS_TOKENIZATION_NETWORK_ERROR (errors M))
       (Some (Details None (Some typeError) None))"
  by (simp add: formatTokenizationError_def statusOf_def typeError_def below500_def
        setDetails_BraintreeError)

text \<open>The \<^verbatim>\<open>catch\<close>, when its \<^verbatim>\<open>sendEvent\<close> returns: one call of \<^verbatim>\<open>reply\<close>.\<close>

lemma onRejected_trace:
  assumes "sendEvent cb ''custom.hosted-fields.tokenization.failed'' = None"
  shows "fst (onRejected M cb e)
         = [SendEvent ''custom.hosted-fields.tokenization.failed'',
            Reply [RError (formatTokenizationError M e)]]"
  using assms by (simp add: onRejected_def thenRun_def callSendEvent_def callReply_def Let_def)

text \<open>
  C3, with the conditions the code needs. Let the request's options be an object, let
  \<^verbatim>\<open>reply([null, result])\<close> return whatever the result, and let
  \<^verbatim>\<open>analytics.sendEvent\<close> return on the event of a failed tokenization. Then, whatever
  the card form's answers and the way the gateway request settles, the handler's trace
  has exactly one call of \<^verbatim>\<open>reply\<close>, and its array is either \<^verbatim>\<open>[null, result]\<close> or
  one error. When the fields are neither all empty nor invalid, the request is sent once;
  if it is rejected, the reply is the classified failure; if it is fulfilled and a read of
  the value throws, the reply is the network error that holds the \<^verbatim>\<open>TypeError\<close>; if
  the event of success cannot be sent, the reply is the classified error of what was
  thrown; otherwise the reply is \<^verbatim>\<open>[null, result]\<close>.
\<close>

theorem reply_once_when_calls_return:
  assumes "sendEvent cb ''custom.hosted-fields.tokenization.failed'' = None"
    and "\<forall>result. reply cb [RNull, RResult result] = None"
  shows
  "(\<exists>args. replies (createTokenizationHandler M cb client cardForm (Some options)) = [args]
      \<and> ((\<exists>result. args = [RNull, RResult result]) \<or> (\<exists>e. args = [RError e])))
   \<and> (\<not> isEmpty cardForm (fieldsToTokenize options)
        \<and> invalidFieldKeys cardForm (fieldsToTokenize options) = [] \<longrightarrow>
      requests (createTokenizationHandler M cb client cardForm (Some options))
        = [tokenizationRequest M cardForm options]
      \<and> (\<forall>e. request client (tokenizationRequest M cardForm options) = Rejected e \<longrightarrow>
            replies (createTokenizationHandler M cb client cardForm (Some options))
              = [[RError (formatTokenizationError M e)]])
      \<and> (\<forall>r. request client (tokenizationRequest M cardForm options) = Fulfilled r \<longrightarrow>
            (case tokenizationResult r of
               Inl thrown \<Rightarrow>
                 thrown = typeError
                 \<and> replies (createTokenizationHandler M cb client cardForm (Some options))
                   = [[RError (BraintreeError
                                 (HOSTED_FIELDS_TOKENIZATION_NETWORK_ERROR (errors M))
                                 (Some (Details None (Some typeError) None)))]]
             | Inr result \<Rightarrow>
                 (case sendEvent cb ''custom.hosted-fields.tokenization.succeeded'' of
                    None \<Rightarrow>
                      replies (createTokenizationHandler M cb client cardForm (Some options))
                        = [[RNull, RResult result]]
                  | Some thrown \<Rightarrow>
                      replies (createTokenizationHandler M cb client cardForm (Some options))
                        = [[RError (formatTokenizationError M thrown)]]))))"
proof (cases "isEmpty cardForm (fieldsToTokenize options)")
  case True
  then show ?thesis by (simp add: createTokenizationHandler_def callReply_def)
next
  case False
  show ?thesis
  proof (cases "invalidFieldKeys cardForm (fieldsToTokenize options) = []")
    case inv: False
    then show ?thesis using False by (simp add: createTokenizationHandler_def callReply_def)
  next
    case valid: True
    define req where "req = tokenizationRequest M cardForm options"
    note caught = onRejected_trace[OF assms(1)]
    show ?thesis
    proof (cases "request client req")
      case (Rejected e)
      then show ?thesis
        using False valid
        by (simp add: createTokenizationHandler_def req_def caught)
    next
      case (Fulfilled r)
      show ?thesis
      proof (cases "tokenizationResult r")
        case (Inl thrown)
        then have "thrown = typeError" by (rule tokenizationResult_throws)
        then show ?thesis
          using False valid Fulfilled Inl
          by (simp add: createTokenizationHandler_def req_def onFulfilled_def caught
                format_typeError)
      next
        case (Inr result)
        show ?thesis
        proof (cases "sendEvent cb ''custom.hosted-fields.tokenization.succeeded''")
          case None
          then show ?thesis
            using False valid Fulfilled Inr assms(2)
            by (simp add: createTokenizationHandler_def req_def onFulfilled_def thenRun_def
                  callSendEvent_def callReply_def)
        next
          case (Some thrown)
          then show ?thesis
            using False valid Fulfilled Inr
            by (simp add: createTokenizationHandler_def req_def onFulfilled_def thenRun_def
                  callSendEvent_def callReply_def caught)
        qed
      qed
    qed
  qed
qed

theorem reply_once_when_calls_return_witness:
  "replies (createTokenizationHandler exampleModules exampleCallbacks
      (exampleClient (Fulfilled (JObj [(''creditCards'', JArr [JObj [(''nonce'', JStr ''abc'')]])])))
      (exampleCardForm False []) (Some exampleOptions))
    = [[RNull, RResult [(''nonce'', JStr ''abc''), (''details'', JUndefined),
          (''description'', JUndefined), (''type'', JUndefined), (''binData'', JUndefined)]]]
   \<and> replies (createTokenizationHandler exampleModules exampleCallbacks
      (exampleClient (Fulfilled (JObj [(''creditCards'', JArr [])])))
      (exampleCardForm False []) (Some exampleOptions))
    = [[RError (BraintreeError (HOSTED_FIELDS_TOKENIZATION_NETWORK_ERROR exampleErrors)
                 (Some (Details None (Some typeError) None)))]]
   \<and> replies (createTokenizationHandler exampleModules exampleCallbacks
      (exampleClient (Rejected (exampleFailure (Some 403) None)))
      (exampleCardForm False []) (Some exampleOptions))
    = [[RError (exampleFailure (Some 403) None)]]"
  using reply_once_when_calls_return[where M = exampleModules and cb = exampleCallbacks
          and client = "exampleClient (Fulfilled (JObj [(''creditCards'', JArr [JObj [(''nonce'', JStr ''abc'')]])]))"
          and cardForm = "exampleCardForm False []" and options = exampleOptions]
  by (simp add: createTokenizationHandler_def exampleClient_def exampleCardForm_def
        exampleOptions_def exampleCallbacks_def onFulfilled_def tokenizationResult_def
        andThen_def js_member_def js_first_def thenRun_def callSendEvent_def callReply_def
        onRejected_def formatTokenizationError_def statusOf_def typeError_def below500_def
        setDetails_def BraintreeError_def exampleModules_def exampleFailure_def)

text \<open>
  C3 without those conditions fails: when the request is fulfilled and
  \<^verbatim>\<open>reply([null, result])\<close> throws (line 322), the \<^verbatim>\<open>catch\<close> of line 323 receives what
  was thrown and calls \<^verbatim>\<open>reply\<close> again (line 328). The trace has two calls of
  \<^verbatim>\<open>reply\<close>, the first with \<^verbatim>\<open>[null, result]\<close> and the second with an error.
\<close>

theorem reply_twice_when_reply_throws:
  "replies (createTokenizationHandler exampleModules exampleThrowingReply
      (exampleClient (Fulfilled (JObj [(''creditCards'', JArr [JObj [(''nonce'', JStr ''abc'')]])])))
      (exampleCardForm False []) (Some exampleOptions))
    = [[RNull, RResult [(''nonce'', JStr ''abc''), (''details'', JUndefined),
          (''description'', JUndefined), (''type'', JUndefined), (''binData'', JUndefined)]],
       [RError (BraintreeError (HOSTED_FIELDS_TOKENIZATION_NETWORK_ERROR exampleErrors)
                 (Some (Details None (Some typeError) None)))]]"
  by (simp add: createTokenizationHandler_def exampleClient_def exampleCardForm_def
        exampleOptions_def exampleThrowingReply_def onFulfilled_def tokenizationResult_def
        andThen_def js_member_def js_first_def thenRun_def callSendEvent_def callReply_def
        onRejected_def formatTokenizationError_def statusOf_def typeError_def below500_def
        setDetails_def BraintreeError_def exampleModules_def)

end
